theory Spec2Isabelle
  imports Main "HOL-Library.AList" "HOL-Library.List_Lexorder" "HOL-Library.Char_ord"
begin

text \<open>
  The Lockbox data store: the change detector and the class \<open>DataStore\<close> of
  lib/datastore.js with its state check, over the local database of
  lib/localdatabase.js. The classes it calls and the sources do not hold are modelled
  from the specification (the item key store) or taken as an argument
  (\<open>Items.prepare\<close>).
\<close>

section \<open>Items\<close>

text \<open>
  An item is a JSON object. Every property may be missing, so every field is an
  option: \<open>None\<close> is a property the object does not have. The entry is a nested
  object of the same kind.
\<close>

record entry =
  kind :: "string option"
  username :: "string option"
  password :: "string option"
  notes' :: "string option"

record item =
  id' :: "string option"
  title :: "string option"
  origins :: "string list option"
  tags :: "string list option"
  entry :: "entry option"
  disabled :: "bool option"
  created :: "string option"
  modified :: "string option"
  last_used :: "string option"
  history :: "(string \<times> entry) list option"

text \<open>The empty object literal, for items and for entries.\<close>

definition empty_entry :: entry where
  "empty_entry = \<lparr>kind = None, username = None, password = None, notes' = None\<rparr>"

definition empty_item :: item where
  "empty_item =
     \<lparr>id' = None, title = None, origins = None, tags = None, entry = None,
      disabled = None, created = None, modified = None, last_used = None,
      history = None\<rparr>"

text \<open>
  \<open>Object.assign({}, prev, next)\<close>: a property of \<open>next\<close> replaces the one of
  \<open>prev\<close>; a property \<open>next\<close> lacks keeps the value of \<open>prev\<close>. The copy is
  shallow: the entry is taken as a whole.
\<close>

definition overlay :: "'a option \<Rightarrow> 'a option \<Rightarrow> 'a option" where
  "overlay p n = (case n of None \<Rightarrow> p | Some v \<Rightarrow> Some v)"

definition assign :: "item \<Rightarrow> item \<Rightarrow> item" where
  "assign prev next =
     \<lparr>id' = overlay (id' prev) (id' next),
      title = overlay (title prev) (title next),
      origins = overlay (origins prev) (origins next),
      tags = overlay (tags prev) (tags next),
      entry = overlay (entry prev) (entry next),
      disabled = overlay (disabled prev) (disabled next),
      created = overlay (created prev) (created next),
      modified = overlay (modified prev) (modified next),
      last_used = overlay (last_used prev) (last_used next),
      history = overlay (history prev) (history next)\<rparr>"

text \<open>\<open>x || {}\<close> and \<open>x || []\<close>.\<close>

definition or_empty_item :: "item option \<Rightarrow> item" where
  "or_empty_item x = (case x of None \<Rightarrow> empty_item | Some i \<Rightarrow> i)"

definition or_empty_entry :: "entry option \<Rightarrow> entry" where
  "or_empty_entry x = (case x of None \<Rightarrow> empty_entry | Some e \<Rightarrow> e)"

definition or_empty_list :: "'a list option \<Rightarrow> 'a list" where
  "or_empty_list x = (case x of None \<Rightarrow> [] | Some xs \<Rightarrow> xs)"

text \<open>\<open>entry[f]\<close>: the property of an entry by its name.\<close>

definition entry_get :: "entry \<Rightarrow> string \<Rightarrow> string option" where
  "entry_get e f =
     (if f = ''kind'' then kind e
      else if f = ''username'' then username e
      else if f = ''password'' then password e
      else if f = ''notes'' then notes' e
      else None)"

text \<open>\<open>Array.prototype.join\<close> on an array of strings.\<close>

fun join :: "string \<Rightarrow> string list \<Rightarrow> string" where
  "join sep [] = []"
| "join sep [x] = x"
| "join sep (x # y # ys) = x @ sep @ join sep (y # ys)"

section \<open>Change detection\<close>

text \<open>
  \<open>determineItemChanges(prev, next)\<close>, in two steps: \<open>changed_fields\<close> is the array
  \<open>fields\<close> as it stands after the three checks, \<open>determineItemChanges\<close> joins it.
  The test on the origins is the source's: the lengths differ, or some origin of
  \<open>prev\<close> is not found in \<open>next\<close>.
\<close>

definition origins_differ :: "string list \<Rightarrow> string list \<Rightarrow> bool" where
  "origins_differ prevOrigins nextOrigins =
     (length prevOrigins \<noteq> length nextOrigins \<or>
      \<not> list_all (\<lambda>d. d \<in> set nextOrigins) prevOrigins)"

definition changed_fields :: "item option \<Rightarrow> item option \<Rightarrow> string list" where
  "changed_fields prev0 next0 =
     (let prev = or_empty_item prev0;
          next1 = or_empty_item next0;
          next = assign prev next1;
          fields0 = [];
          fields1 = (if title prev \<noteq> title next then fields0 @ [''title''] else fields0);
          prevOrigins = or_empty_list (origins prev);
          nextOrigins = or_empty_list (origins next);
          fields2 = (if origins_differ prevOrigins nextOrigins
                     then fields1 @ [''origins''] else fields1);
          prevEntry = or_empty_entry (entry prev);
          nextEntry = or_empty_entry (entry next)
      in foldl (\<lambda>fields f.
                  if entry_get prevEntry f \<noteq> entry_get nextEntry f
                  then fields @ [''entry.'' @ f] else fields)
           fields2 [''username'', ''password'', ''notes''])"

definition determineItemChanges :: "item option \<Rightarrow> item option \<Rightarrow> string" where
  "determineItemChanges prev next = join '','' (changed_fields prev next)"









section \<open>Errors\<close>

text \<open>
  \<open>DataStoreError(message, reason)\<close> with the reasons the sources name, the two
  built-in errors the data store throws, the failures of the key store and the
  failure of the local database on a primary key that is taken.
\<close>

datatype reason =
  NOT_INITIALIZED | INITIALIZED | LOCKED | INVALID_ITEM | MISSING_ITEM | MISSING_APP_KEY

datatype error =
    DataStoreError string reason
  | TypeError string
  | Error string
  | InvalidMasterKey
  | NotEncrypted
  | UnknownKey
  | AuthTagMismatch
  | Corrupt
  | ConstraintError

section \<open>Keys and sealed containers\<close>

text \<open>
  Cryptography is idealised: a key is its secret bytes, a derived key is the triple
  it was derived from, and a sealed container names the key and the associated data
  it was sealed under, so that opening it succeeds exactly under the same key and
  data. The opened bytes either parse as JSON or do not.
\<close>

datatype jwk = Oct (jwk_k: string)

datatype kek = PBES2 string string nat

datatype 'a content = Json 'a | Garbage string

type_synonym keyring = "(string \<times> jwk) list"

datatype keyring_jwe =
    KeyringJWE kek string nat nat "keyring content"
  | Malformed string

datatype item_jwe = ItemJWE jwk string nat "item content"

text \<open>
  Modelled from the spec: the envelope of the key ring (lib/itemkeystore.js is not
  among the sources). The wrapping key is derived from the master secret, the salt
  and the iteration count; the container carries salt and iteration count as
  authenticated parameters, next to the nonce. Unwrapping fails with
  \<open>InvalidMasterKey\<close> on a malformed container or a tag mismatch and with
  \<open>Corrupt\<close> when the opened bytes do not decode.
\<close>

definition derive :: "jwk \<Rightarrow> string \<Rightarrow> nat \<Rightarrow> kek" where
  "derive master p2s p2c = PBES2 (jwk_k master) p2s p2c"

definition wrap :: "jwk \<Rightarrow> string \<Rightarrow> nat \<Rightarrow> nat \<Rightarrow> keyring \<Rightarrow> keyring_jwe" where
  "wrap master p2s p2c iv ring = KeyringJWE (derive master p2s p2c) p2s p2c iv (Json ring)"

definition unwrap :: "jwk \<Rightarrow> keyring_jwe \<Rightarrow> error + keyring" where
  "unwrap master blob =
     (case blob of
        Malformed _ \<Rightarrow> Inl InvalidMasterKey
      | KeyringJWE sealed p2s p2c iv payload \<Rightarrow>
          if sealed = derive master p2s p2c
          then (case payload of Json ring \<Rightarrow> Inr ring | Garbage _ \<Rightarrow> Inl Corrupt)
          else Inl InvalidMasterKey)"

section \<open>The item key store\<close>

text \<open>
  Modelled from the spec: the class \<open>ItemKeyStore\<close> (lib/itemkeystore.js is not
  among the sources; the data store below calls it). Its state is the group tag,
  the salt, the iteration count, the latest wrapped key ring, the master key while
  it is held, and the in-memory map from item id to item key.
\<close>

record itemkeystore =
  group' :: string
  salt :: string
  iterations :: nat
  encrypted :: "keyring_jwe option"
  masterKey :: "jwk option"
  keys :: keyring

text \<open>
  Modelled from the spec: the persisted shape of the key store (group, salt,
  iterations, wrapped key ring). It is the object the constructor takes, there with
  an optional master key; \<open>toJSON()\<close> gives one back without the master key, and a
  row of the table \<open>keystores\<close> is one.
\<close>

record keystore_cfg =
  cfg_group :: "string option"
  cfg_salt :: "string option"
  cfg_iterations :: "nat option"
  cfg_encrypted :: "keyring_jwe option"
  cfg_masterKey :: "jwk option"

definition empty_cfg :: keystore_cfg where
  "empty_cfg =
     \<lparr>cfg_group = None, cfg_salt = None, cfg_iterations = None, cfg_encrypted = None,
      cfg_masterKey = None\<rparr>"

text \<open>
  Modelled from the spec: the constructor of \<open>ItemKeyStore\<close>. The default group
  is the empty string, the default iteration count 8192, the default salt a fresh
  random value (the first argument).
\<close>

definition ItemKeyStore_new :: "string \<Rightarrow> keystore_cfg \<Rightarrow> itemkeystore" where
  "ItemKeyStore_new randomSalt cfg =
     \<lparr>group' = (case cfg_group cfg of None \<Rightarrow> [] | Some g \<Rightarrow> g),
      salt = (case cfg_salt cfg of None \<Rightarrow> randomSalt | Some s \<Rightarrow> s),
      iterations = (case cfg_iterations cfg of None \<Rightarrow> 8192 | Some n \<Rightarrow> n),
      encrypted = cfg_encrypted cfg,
      masterKey = cfg_masterKey cfg,
      keys = []\<rparr>"

definition ItemKeyStore_toJSON :: "itemkeystore \<Rightarrow> keystore_cfg" where
  "ItemKeyStore_toJSON ks =
     \<lparr>cfg_group = Some (group' ks), cfg_salt = Some (salt ks),
      cfg_iterations = Some (iterations ks), cfg_encrypted = encrypted ks,
      cfg_masterKey = None\<rparr>"

text \<open>
  Modelled from the spec: \<open>ItemKeyStore.add\<close> and \<open>ItemKeyStore.delete\<close>.
  \<open>add(id)\<close> is idempotent: the key of an id that has one is returned, otherwise a
  fresh random key (its bytes are the first argument) is stored and returned.
\<close>

definition ItemKeyStore_add :: "string \<Rightarrow> string \<Rightarrow> itemkeystore \<Rightarrow> jwk \<times> itemkeystore" where
  "ItemKeyStore_add randomKey i ks =
     (case map_of (keys ks) i of
        Some key \<Rightarrow> (key, ks)
      | None \<Rightarrow> (Oct randomKey, ks\<lparr>keys := keys ks @ [(i, Oct randomKey)]\<rparr>))"

definition ItemKeyStore_delete :: "string \<Rightarrow> itemkeystore \<Rightarrow> itemkeystore" where
  "ItemKeyStore_delete i ks = ks\<lparr>keys := AList.delete i (keys ks)\<rparr>"

text \<open>
  Modelled from the spec: \<open>ItemKeyStore.load\<close>, \<open>save\<close> and \<open>clear\<close>.
  \<open>load(master?)\<close> needs the wrapped key ring and a master key, the one given or the
  one held; it replaces the in-memory map by the unwrapped contents and keeps the
  master key. \<open>save()\<close> needs the master key held and wraps the map again, under a
  fresh nonce. \<open>clear(hard?)\<close> drops the map and the master key, and with
  \<open>hard\<close> the wrapped key ring too.
\<close>

definition ItemKeyStore_load :: "jwk option \<Rightarrow> itemkeystore \<Rightarrow> error + itemkeystore" where
  "ItemKeyStore_load master ks =
     (case encrypted ks of
        None \<Rightarrow> Inl NotEncrypted
      | Some blob \<Rightarrow>
          (case overlay (masterKey ks) master of
             None \<Rightarrow> Inl InvalidMasterKey
           | Some m \<Rightarrow>
               (case unwrap m blob of
                  Inl err \<Rightarrow> Inl err
                | Inr ring \<Rightarrow> Inr (ks\<lparr>keys := ring, masterKey := Some m\<rparr>))))"

definition ItemKeyStore_save :: "nat \<Rightarrow> itemkeystore \<Rightarrow> error + itemkeystore" where
  "ItemKeyStore_save iv ks =
     (case masterKey ks of
        None \<Rightarrow> Inl InvalidMasterKey
      | Some m \<Rightarrow>
          Inr (ks\<lparr>encrypted := Some (wrap m (salt ks) (iterations ks) iv (keys ks))\<rparr>))"

definition ItemKeyStore_clear :: "bool \<Rightarrow> itemkeystore \<Rightarrow> itemkeystore" where
  "ItemKeyStore_clear hard ks =
     ks\<lparr>keys := [], masterKey := None,
        encrypted := (if hard then None else encrypted ks)\<rparr>"

text \<open>
  Modelled from the spec: \<open>ItemKeyStore.encrypt\<close> and \<open>decrypt\<close>.
  \<open>encrypt(item)\<close> seals the item under the key of its id, adding the key if there
  is none, with the id as associated data; an item that carries no id has no key to
  be sealed under and is refused. \<open>decrypt(id, ciphertext)\<close> fails with
  \<open>UnknownKey\<close> when the id has no key, with \<open>AuthTagMismatch\<close> when the
  container was sealed under another key or another id, and with \<open>Corrupt\<close> when
  the opened bytes are not an item.
\<close>

definition ItemKeyStore_encrypt ::
  "string \<Rightarrow> nat \<Rightarrow> item \<Rightarrow> itemkeystore \<Rightarrow> (error + item_jwe) \<times> itemkeystore" where
  "ItemKeyStore_encrypt randomKey iv it ks =
     (case id' it of
        None \<Rightarrow> (Inl (Error ''invalid item''), ks)
      | Some i \<Rightarrow>
          (case ItemKeyStore_add randomKey i ks of
             (key, ks1) \<Rightarrow> (Inr (ItemJWE key i iv (Json it)), ks1)))"

definition ItemKeyStore_decrypt :: "string \<Rightarrow> item_jwe \<Rightarrow> itemkeystore \<Rightarrow> error + item" where
  "ItemKeyStore_decrypt i blob ks =
     (case map_of (keys ks) i of
        None \<Rightarrow> Inl UnknownKey
      | Some key \<Rightarrow>
          (case blob of
             ItemJWE sealed aad iv payload \<Rightarrow>
               if sealed = key \<and> aad = i
               then (case payload of Json it \<Rightarrow> Inr it | Garbage _ \<Rightarrow> Inl Corrupt)
               else Inl AuthTagMismatch))"

section \<open>The local database\<close>

text \<open>
  The two tables of \<open>localdatabase.open\<close>: \<open>items\<close> with primary key \<open>id\<close>,
  \<open>keystores\<close> with primary key \<open>group\<close>. A row of \<open>items\<close> is
  \<open>{ id, active, encrypted }\<close>.
\<close>

datatype item_record = ItemRecord string string item_jwe

record database =
  items :: "(string \<times> item_record) list"
  keystores :: "(string \<times> keystore_cfg) list"

definition empty_database :: database where
  "empty_database = \<lparr>items = [], keystores = []\<rparr>"

section \<open>The data store\<close>

text \<open>
  The state of a \<open>DataStore\<close>: the bucket name, the key store, the handle of the
  local database once \<open>prepare\<close> has opened it (with the tables it holds), and
  the calls made to \<open>recordMetric\<close> so far, each \<open>(method, id, fields)\<close>.
\<close>

datatype metric = Metric string "string option" "string option"

record datastore =
  bucket :: "string option"
  keystore :: itemkeystore
  ldb :: "database option"
  metrics :: "metric list"

text \<open>
  What a call takes from outside the program: the database that
  \<open>localdatabase.open\<close> returns for the bucket, and the random values drawn (a
  default salt, the bytes of a new item key, the nonce of an item, the nonce of the
  wrapped key ring).
\<close>

record env =
  opened :: database
  randomSalt :: string
  randomKey :: string
  itemIV :: nat
  wrapIV :: nat

text \<open>The options of \<open>initialize\<close>, as its callers pass them.\<close>

record init_opts =
  opt_password :: "string option"
  opt_salt :: "string option"
  opt_iterations :: "nat option"
  opt_appKey :: "jwk option"
  opt_rebase :: "bool option"

text \<open>\<open>BASE64URL(SHA-256("project lockbox"))\<close>.\<close>

definition PASSWORD_PREFIX :: string where
  "PASSWORD_PREFIX = ''-GV3ItzyNxfBGp3ZjtqVGswWWlT7tIMZjeXanHqhxm0''"

definition passwordToKey :: "string option \<Rightarrow> jwk" where
  "passwordToKey pwd = Oct (PASSWORD_PREFIX @ (case pwd of None \<Rightarrow> [] | Some p \<Rightarrow> p))"

text \<open>
  The constructor: \<open>cfg.bucket\<close>, and \<open>cfg.keys\<close> as the wrapped key ring of a new
  key store (whose default salt is the first argument).
\<close>

definition DataStore_new :: "string \<Rightarrow> string option \<Rightarrow> keyring_jwe option \<Rightarrow> datastore" where
  "DataStore_new salt0 cfg_bucket cfg_keys =
     \<lparr>bucket = cfg_bucket,
      keystore = ItemKeyStore_new salt0 (empty_cfg\<lparr>cfg_encrypted := cfg_keys\<rparr>),
      ldb = None,
      metrics = []\<rparr>"

text \<open>
  Truth of a value under \<open>!\<close>: a wrapped key ring is a string, false when it is
  missing or empty; an id likewise; a flag is false when missing.
\<close>

definition truthy_blob :: "keyring_jwe option \<Rightarrow> bool" where
  "truthy_blob b =
     (case b of None \<Rightarrow> False | Some (Malformed s) \<Rightarrow> s \<noteq> [] | Some _ \<Rightarrow> True)"

definition truthy_string :: "string option \<Rightarrow> bool" where
  "truthy_string x = (case x of None \<Rightarrow> False | Some s \<Rightarrow> s \<noteq> [])"

definition truthy_flag :: "bool option \<Rightarrow> bool" where
  "truthy_flag x = (case x of None \<Rightarrow> False | Some b \<Rightarrow> b)"

definition initialized :: "datastore \<Rightarrow> bool" where
  "initialized ds = truthy_blob (encrypted (keystore ds))"

definition locked :: "datastore \<Rightarrow> bool" where
  "locked ds = (masterKey (keystore ds) = None)"

definition checkState :: "datastore \<Rightarrow> error + unit" where
  "checkState ds =
     (if \<not> initialized ds
      then Inl (DataStoreError ''data is not initialized'' NOT_INITIALIZED)
      else if locked ds
      then Inl (DataStoreError ''datastore is locked'' LOCKED)
      else Inr ())"

text \<open>Reading \<open>self.ldb.items\<close> before \<open>prepare\<close> has set \<open>self.ldb\<close>.\<close>

definition no_ldb :: error where
  "no_ldb = TypeError ''self.ldb is undefined''"

definition prepare :: "env \<Rightarrow> datastore \<Rightarrow> datastore" where
  "prepare e ds =
     (case ldb ds of
        Some _ \<Rightarrow> ds
      | None \<Rightarrow>
          (let db = opened e;
               stored = (case map_of (keystores db) [] of
                           Some row \<Rightarrow> row
                         | None \<Rightarrow> ItemKeyStore_toJSON (keystore ds))
           in ds\<lparr>ldb := Some db, keystore := ItemKeyStore_new (randomSalt e) stored\<rparr>))"

definition put_keystore :: "itemkeystore \<Rightarrow> database \<Rightarrow> database" where
  "put_keystore ks db =
     db\<lparr>keystores := AList.update (group' ks) (ItemKeyStore_toJSON ks) (keystores db)\<rparr>"

definition initialize :: "env \<Rightarrow> init_opts \<Rightarrow> datastore \<Rightarrow> (error + unit) \<times> datastore" where
  "initialize e opts ds0 =
     (let ds = prepare e ds0 in
      if truthy_blob (encrypted (keystore ds))
      then (Inl (DataStoreError ''already initialized'' INITIALIZED), ds)
      else
        (let master = passwordToKey
                        (Some (case opt_password opts of None \<Rightarrow> [] | Some p \<Rightarrow> p));
             fresh = ItemKeyStore_new (randomSalt e)
                       (empty_cfg\<lparr>cfg_salt := opt_salt opts,
                                  cfg_iterations := opt_iterations opts,
                                  cfg_masterKey := Some master\<rparr>)
         in case ItemKeyStore_save (wrapIV e) fresh of
              Inl err \<Rightarrow> (Inl err, ds)
            | Inr ks \<Rightarrow>
                (case ldb ds of
                   None \<Rightarrow> (Inl no_ldb, ds\<lparr>keystore := ks\<rparr>)
                 | Some db \<Rightarrow>
                     (Inr (), ds\<lparr>keystore := ks, ldb := Some (put_keystore ks db)\<rparr>))))"

definition reset :: "datastore \<Rightarrow> (error + unit) \<times> datastore" where
  "reset ds =
     (if initialized ds
      then (case ldb ds of
              None \<Rightarrow> (Inl no_ldb, ds)
            | Some _ \<Rightarrow>
                (Inr (), ds\<lparr>keystore := ItemKeyStore_clear True (keystore ds), ldb := None\<rparr>))
      else (Inr (), ds))"

definition lock :: "datastore \<Rightarrow> (error + unit) \<times> datastore" where
  "lock ds = (Inr (), ds\<lparr>keystore := ItemKeyStore_clear False (keystore ds)\<rparr>)"

definition unlock :: "string option \<Rightarrow> datastore \<Rightarrow> (error + unit) \<times> datastore" where
  "unlock pwd ds =
     (if \<not> locked ds then (Inr (), ds)
      else (case ItemKeyStore_load (Some (passwordToKey pwd)) (keystore ds) of
              Inl err \<Rightarrow> (Inl err, ds)
            | Inr ks \<Rightarrow> (Inr (), ds\<lparr>keystore := ks\<rparr>)))"

text \<open>
  \<open>list()\<close> reads the rows with \<open>toArray()\<close>, that is in the order of their
  primary key, and decrypts every row; the first row that fails rejects the whole
  call.
\<close>

fun decrypt_all :: "itemkeystore \<Rightarrow> (string \<times> item_record) list \<Rightarrow> error + (string \<times> item) list" where
  "decrypt_all ks [] = Inr []"
| "decrypt_all ks ((key, ItemRecord i act blob) # rows) =
     (case ItemKeyStore_decrypt i blob ks of
        Inl err \<Rightarrow> Inl err
      | Inr it \<Rightarrow>
          (case decrypt_all ks rows of
             Inl err \<Rightarrow> Inl err
           | Inr rest \<Rightarrow> Inr ((i, it) # rest)))"

definition list :: "datastore \<Rightarrow> (error + (string \<times> item) list) \<times> datastore" where
  "list ds =
     (case checkState ds of
        Inl err \<Rightarrow> (Inl err, ds)
      | Inr _ \<Rightarrow>
          (case ldb ds of
             None \<Rightarrow> (Inl no_ldb, ds)
           | Some db \<Rightarrow> (decrypt_all (keystore ds) (sort_key fst (items db)), ds)))"

definition get :: "string \<Rightarrow> datastore \<Rightarrow> (error + item option) \<times> datastore" where
  "get i ds =
     (case checkState ds of
        Inl err \<Rightarrow> (Inl err, ds)
      | Inr _ \<Rightarrow>
          (case ldb ds of
             None \<Rightarrow> (Inl no_ldb, ds)
           | Some db \<Rightarrow>
               (case map_of (items db) i of
                  None \<Rightarrow> (Inr None, ds)
                | Some (ItemRecord _ _ blob) \<Rightarrow>
                    (case ItemKeyStore_decrypt i blob (keystore ds) of
                       Inl err \<Rightarrow> (Inl err, ds)
                     | Inr it \<Rightarrow> (Inr (Some it), ds)))))"

definition active_of :: "item \<Rightarrow> string" where
  "active_of it = (if \<not> truthy_flag (disabled it) then ''active'' else [])"

text \<open>
  \<open>add\<close> and \<open>update\<close> call \<open>Items.prepare\<close> (lib/items.js, not among the
  sources): it is their first argument \<open>prep\<close>, a function from the input and the
  previous item, if any, to the completed item or an error. Nothing is assumed
  about it.

  The transaction of \<open>add\<close> writes both tables or none: \<open>items.add\<close> fails on an
  id that is taken, and then neither table changes.
\<close>

type_synonym items_prepare = "item \<Rightarrow> item option \<Rightarrow> error + item"

definition add ::
  "items_prepare \<Rightarrow> env \<Rightarrow> item option \<Rightarrow> datastore \<Rightarrow> (error + item) \<times> datastore" where
  "add prep e item0 ds =
     (case checkState ds of
        Inl err \<Rightarrow> (Inl err, ds)
      | Inr _ \<Rightarrow>
     (case item0 of
        None \<Rightarrow> (Inl (TypeError ''expected item''), ds)
      | Some input \<Rightarrow>
     (case prep input None of
        Inl err \<Rightarrow> (Inl err, ds)
      | Inr it \<Rightarrow>
     (case ItemKeyStore_encrypt (randomKey e) (itemIV e) it (keystore ds) of
        (Inl err, ks1) \<Rightarrow> (Inl err, ds\<lparr>keystore := ks1\<rparr>)
      | (Inr blob, ks1) \<Rightarrow>
     (case ItemKeyStore_save (wrapIV e) ks1 of
        Inl err \<Rightarrow> (Inl err, ds\<lparr>keystore := ks1\<rparr>)
      | Inr ks2 \<Rightarrow>
     (case ldb ds of
        None \<Rightarrow> (Inl no_ldb, ds\<lparr>keystore := ks2\<rparr>)
      | Some db \<Rightarrow>
     (case id' it of
        None \<Rightarrow> (Inl (Error ''DataError''), ds\<lparr>keystore := ks2\<rparr>)
      | Some i \<Rightarrow>
          if map_of (items db) i \<noteq> None
          then (Inl ConstraintError, ds\<lparr>keystore := ks2\<rparr>)
          else
            (Inr it,
             ds\<lparr>keystore := ks2,
                ldb := Some (put_keystore ks2
                         (db\<lparr>items := items db @ [(i, ItemRecord i (active_of it) blob)]\<rparr>)),
                metrics := metrics ds @ [Metric ''added'' (id' it) None]\<rparr>))))))))"

definition update ::
  "items_prepare \<Rightarrow> env \<Rightarrow> item option \<Rightarrow> datastore \<Rightarrow> (error + item) \<times> datastore" where
  "update prep e item0 ds =
     (case checkState ds of
        Inl err \<Rightarrow> (Inl err, ds)
      | Inr _ \<Rightarrow>
     (case item0 of
        None \<Rightarrow> (Inl (TypeError ''invalid item''), ds)
      | Some input \<Rightarrow>
     (case (if truthy_string (id' input) then id' input else None) of
        None \<Rightarrow> (Inl (TypeError ''invalid item''), ds)
      | Some i \<Rightarrow>
     (case ldb ds of
        None \<Rightarrow> (Inl no_ldb, ds)
      | Some db \<Rightarrow>
     (case map_of (items db) i of
        None \<Rightarrow> (Inl (Error ''item does not exist''), ds)
      | Some (ItemRecord _ _ stored) \<Rightarrow>
     (case ItemKeyStore_decrypt i stored (keystore ds) of
        Inl err \<Rightarrow> (Inl err, ds)
      | Inr orig \<Rightarrow>
     (case prep input (Some orig) of
        Inl err \<Rightarrow> (Inl err, ds)
      | Inr it \<Rightarrow>
     (let changes = determineItemChanges (Some orig) (Some it) in
      case ItemKeyStore_encrypt (randomKey e) (itemIV e) it (keystore ds) of
        (Inl err, ks1) \<Rightarrow> (Inl err, ds\<lparr>keystore := ks1\<rparr>)
      | (Inr blob, ks1) \<Rightarrow>
          (Inr it,
           ds\<lparr>keystore := ks1,
              ldb := Some (db\<lparr>items :=
                       AList.update i (ItemRecord i (active_of it) blob) (items db)\<rparr>),
              metrics := metrics ds @ [Metric ''updated'' (id' it) (Some changes)]\<rparr>)))))))))"

definition remove :: "env \<Rightarrow> string \<Rightarrow> datastore \<Rightarrow> (error + item option) \<times> datastore" where
  "remove e i ds =
     (case checkState ds of
        Inl err \<Rightarrow> (Inl err, ds)
      | Inr _ \<Rightarrow>
     (case ldb ds of
        None \<Rightarrow> (Inl no_ldb, ds)
      | Some db \<Rightarrow>
     (case map_of (items db) i of
        None \<Rightarrow> (Inr None, ds)
      | Some (ItemRecord _ _ stored) \<Rightarrow>
     (case ItemKeyStore_decrypt i stored (keystore ds) of
        Inl err \<Rightarrow> (Inl err, ds)
      | Inr it \<Rightarrow>
     (let ks1 = ItemKeyStore_delete i (keystore ds) in
      case ItemKeyStore_save (wrapIV e) ks1 of
        Inl err \<Rightarrow> (Inl err, ds\<lparr>keystore := ks1\<rparr>)
      | Inr ks2 \<Rightarrow>
          (Inr (Some it),
           ds\<lparr>keystore := ks2,
              ldb := Some (put_keystore ks2 (db\<lparr>items := AList.delete i (items db)\<rparr>)),
              metrics := metrics ds @ [Metric ''deleted'' (id' it) None]\<rparr>))))))"

text \<open>
  A call of a data operation by its name, on a \<open>DataStore\<close> object. The class
  defines \<open>list\<close>, \<open>get\<close>, \<open>add\<close>, \<open>update\<close> and \<open>remove\<close>; it defines no
  \<open>touch\<close>, so that calling it fails as a call of \<open>undefined\<close> does, before any
  code of the data store runs.
\<close>

datatype call =
    List
  | Get string
  | Add "item option"
  | Update "item option"
  | Touch "item option"
  | Remove string

datatype reply =
    Listed "(string \<times> item) list"
  | Got "item option"
  | Stored item

definition returning :: "('a \<Rightarrow> reply) \<Rightarrow> (error + 'a) \<times> datastore \<Rightarrow> (error + reply) \<times> datastore" where
  "returning f r = (case r of (Inl err, ds) \<Rightarrow> (Inl err, ds) | (Inr v, ds) \<Rightarrow> (Inr (f v), ds))"

definition invoke :: "items_prepare \<Rightarrow> env \<Rightarrow> call \<Rightarrow> datastore \<Rightarrow> (error + reply) \<times> datastore" where
  "invoke prep e c ds =
     (case c of
        List \<Rightarrow> returning Listed (list ds)
      | Get i \<Rightarrow> returning Got (get i ds)
      | Add it \<Rightarrow> returning Stored (add prep e it ds)
      | Update it \<Rightarrow> returning Stored (update prep e it ds)
      | Touch it \<Rightarrow> (Inl (TypeError ''touch is not a function''), ds)
      | Remove i \<Rightarrow> returning Got (remove e i ds))"

section \<open>Concrete runs\<close>

text \<open>
  The inputs the general theorems are run on. \<open>stub_prepare\<close> stands in for
  \<open>Items.prepare\<close> in these runs only: it completes a new item with the given id and
  time, and overlays an update onto the stored item.
\<close>

definition stub_prepare :: "string \<Rightarrow> string \<Rightarrow> items_prepare" where
  "stub_prepare uuid now input previous =
     (case previous of
        None \<Rightarrow>
          (case entry input of
             None \<Rightarrow> Inl (DataStoreError ''entry is required'' INVALID_ITEM)
           | Some _ \<Rightarrow>
               Inr (input\<lparr>id' := Some uuid, created := Some now, modified := Some now,
                         last_used := Some now, history := Some []\<rparr>))
      | Some prev \<Rightarrow> Inr ((assign prev input)\<lparr>modified := Some now\<rparr>))"

text \<open>
  The item of the tests, as it is passed to \<open>add\<close> and as it is stored, and the
  stored item with its password changed.
\<close>

definition something :: item where
  "something =
     empty_item\<lparr>title := Some ''My Item'',
                entry := Some \<lparr>kind = Some ''login'', username = Some ''foo'',
                               password = Some ''bar'', notes' = None\<rparr>\<rparr>"

definition stored_something :: item where
  "stored_something =
     something\<lparr>id' := Some ''id1'', created := Some ''t1'', modified := Some ''t1'',
                last_used := Some ''t1'', history := Some []\<rparr>"

definition changed_password :: item where
  "changed_password =
     stored_something\<lparr>entry := Some \<lparr>kind = Some ''login'', username = Some ''foo'',
                                      password = Some ''baz'', notes' = None\<rparr>\<rparr>"

text \<open>
  What the calls of these runs take from outside, and the options of the first
  \<open>initialize\<close> and of a later one that asks for a rebase.
\<close>

definition env1 :: env where
  "env1 = \<lparr>opened = empty_database, randomSalt = ''s1'', randomKey = ''k1'',
           itemIV = 7, wrapIV = 2\<rparr>"

definition opts1 :: init_opts where
  "opts1 = \<lparr>opt_password = Some ''M1'', opt_salt = None, opt_iterations = None,
            opt_appKey = None, opt_rebase = None\<rparr>"

definition opts_rebase :: init_opts where
  "opts_rebase = \<lparr>opt_password = Some ''M2'', opt_salt = Some ''s2'', opt_iterations = None,
                  opt_appKey = Some (Oct ''M2''), opt_rebase = Some True\<rparr>"

definition master1 :: jwk where
  "master1 = passwordToKey (Some ''M1'')"

text \<open>
  The vaults: prepared and never initialized; initialized with the password
  \<open>M1\<close>; the same after \<open>add\<close> of the item; the same after \<open>lock\<close>. The key
  store and the database of the vault that holds the item are written out.
\<close>

definition vault_fresh :: datastore where
  "vault_fresh = prepare env1 (DataStore_new ''s0'' None None)"

definition vault_empty :: datastore where
  "vault_empty = snd (initialize env1 opts1 (DataStore_new ''s0'' None None))"

definition vault_one :: datastore where
  "vault_one = snd (add (stub_prepare ''id1'' ''t1'') env1 (Some something) vault_empty)"

definition vault_locked :: datastore where
  "vault_locked = snd (lock vault_one)"

definition keystore_one :: itemkeystore where
  "keystore_one =
     \<lparr>group' = [], salt = ''s1'', iterations = 8192,
      encrypted = Some (wrap master1 ''s1'' 8192 2 [(''id1'', Oct ''k1'')]),
      masterKey = Some master1,
      keys = [(''id1'', Oct ''k1'')]\<rparr>"

definition database_one :: database where
  "database_one =
     \<lparr>items = [(''id1'', ItemRecord ''id1'' ''active''
                  (ItemJWE (Oct ''k1'') ''id1'' 7 (Json stored_something)))],
      keystores = [([], ItemKeyStore_toJSON keystore_one)]\<rparr>"

text \<open>
  Items for the change detector: the second and third update of the tests, an
  update that carries neither title nor origins, and one that changes every compared
  field.
\<close>

definition s3_prev :: item where
  "s3_prev = stored_something\<lparr>origins := Some [],
      entry := Some \<lparr>kind = Some ''login'', username = Some ''foo'',
                     password = Some ''baz'', notes' = None\<rparr>\<rparr>"

definition s3_next :: item where
  "s3_next = s3_prev\<lparr>title := Some ''MY Item'',
      entry := Some \<lparr>kind = Some ''login'', username = Some ''another-user'',
                     password = Some ''zab'', notes' = None\<rparr>\<rparr>"

definition s4_prev :: item where
  "s4_prev = s3_next\<lparr>origins := Some [''someplace.example'']\<rparr>"

definition partial_next :: item where
  "partial_next = empty_item\<lparr>id' := Some ''id1'',
      entry := Some \<lparr>kind = Some ''login'', username = Some ''another-user'',
                     password = Some ''secret'', notes' = None\<rparr>\<rparr>"

definition full_next :: item where
  "full_next = empty_item\<lparr>id' := Some ''id1'', title := Some ''Other'', origins := Some [],
      entry := Some \<lparr>kind = Some ''login'', username = Some ''u'',
                     password = Some ''p'', notes' = Some ''n''\<rparr>\<rparr>"








text \<open>The data operations the class defines.\<close>

fun defined_method :: "call \<Rightarrow> bool" where
  "defined_method (Touch _) = False"
| "defined_method _ = True"

section \<open>Change detection: what is compared, and in which order\<close>


lemma changed_fields_unfold:
  "changed_fields (Some prev) (Some next) =
     (if title prev \<noteq> title (assign prev next) then [''title''] else []) @
     (if origins_differ (or_empty_list (origins prev)) (or_empty_list (origins (assign prev next)))
      then [''origins''] else []) @
     (if username (or_empty_entry (entry prev)) \<noteq> username (or_empty_entry (entry (assign prev next)))
      then [''entry.username''] else []) @
     (if password (or_empty_entry (entry prev)) \<noteq> password (or_empty_entry (entry (assign prev next)))
      then [''entry.password''] else []) @
     (if notes' (or_empty_entry (entry prev)) \<noteq> notes' (or_empty_entry (entry (assign prev next)))
      then [''entry.notes''] else [])"
  by (simp add: changed_fields_def Let_def or_empty_item_def entry_get_def)




lemma assign_sel:
  "title (assign prev next) = overlay (title prev) (title next)"
  "origins (assign prev next) = overlay (origins prev) (origins next)"
  "entry (assign prev next) = overlay (entry prev) (entry next)"
  by (simp_all add: assign_def)

lemma overlay_simps:
  "overlay p None = p" "overlay p (Some v) = Some v"
  by (simp_all add: overlay_def)

lemma overlay_idem: "overlay p (overlay p n) = overlay p n"
  by (cases n; cases p) (simp_all add: overlay_simps)

lemma overlay_eq: "overlay p n = (if n = None then p else n)"
  by (cases n) (simp_all add: overlay_simps)

lemma assign_idem: "assign prev (assign prev next) = assign prev next"
  by (simp add: assign_def overlay_idem)

lemma origins_assign:
  "or_empty_list (origins (assign prev next)) =
     (if origins next = None then or_empty_list (origins prev) else or_empty_list (origins next))"
  by (simp add: assign_sel overlay_eq)






text \<open>
  C10. The change detector overlays the next item onto the previous one before it
  compares: its result is the one it gives for the overlaid item. A title, origins or
  an entry that the next item lacks takes the previous value and is never in the list
  of changed fields; a field that is in the list is carried by the next item itself
  (for an entry field: by its entry) with a value that differs from the previous one.
\<close>

theorem changes_after_overlay:
  "changed_fields (Some prev) (Some next) = changed_fields (Some prev) (Some (assign prev next)) \<and>
   determineItemChanges (Some prev) (Some next) = join '','' (changed_fields (Some prev) (Some next)) \<and>
   (title next = None \<longrightarrow> ''title'' \<notin> set (changed_fields (Some prev) (Some next))) \<and>
   (origins next = None \<longrightarrow> ''origins'' \<notin> set (changed_fields (Some prev) (Some next))) \<and>
   (entry next = None \<longrightarrow>
      ''entry.username'' \<notin> set (changed_fields (Some prev) (Some next)) \<and>
      ''entry.password'' \<notin> set (changed_fields (Some prev) (Some next)) \<and>
      ''entry.notes'' \<notin> set (changed_fields (Some prev) (Some next))) \<and>
   (''title'' \<in> set (changed_fields (Some prev) (Some next)) \<longrightarrow>
      title next \<noteq> None \<and> title next \<noteq> title prev) \<and>
   (''origins'' \<in> set (changed_fields (Some prev) (Some next)) \<longrightarrow>
      origins next \<noteq> None \<and> or_empty_list (origins next) \<noteq> or_empty_list (origins prev)) \<and>
   (''entry.username'' \<in> set (changed_fields (Some prev) (Some next)) \<longrightarrow>
      entry next \<noteq> None \<and>
      username (or_empty_entry (entry next)) \<noteq> username (or_empty_entry (entry prev))) \<and>
   (''entry.password'' \<in> set (changed_fields (Some prev) (Some next)) \<longrightarrow>
      entry next \<noteq> None \<and>
      password (or_empty_entry (entry next)) \<noteq> password (or_empty_entry (entry prev))) \<and>
   (''entry.notes'' \<in> set (changed_fields (Some prev) (Some next)) \<longrightarrow>
      entry next \<noteq> None \<and>
      notes' (or_empty_entry (entry next)) \<noteq> notes' (or_empty_entry (entry prev)))"
proof -
  note idem = assign_idem [of prev "next"]
  have same_origins: "\<not> origins_differ xs xs" for xs
    by (simp add: origins_differ_def list_all_iff)
  have t: "title (assign prev next) = (if title next = None then title prev else title next)"
    by (simp add: assign_sel overlay_eq)
  have e: "entry (assign prev next) = (if entry next = None then entry prev else entry next)"
    by (simp add: assign_sel overlay_eq)
  have c1: "changed_fields (Some prev) (Some next) = changed_fields (Some prev) (Some (assign prev next))"
    by (simp add: changed_fields_unfold idem)
  have c2: "determineItemChanges (Some prev) (Some next) = join '','' (changed_fields (Some prev) (Some next))"
    by (simp add: determineItemChanges_def)
  have c3: "title next = None \<longrightarrow> ''title'' \<notin> set (changed_fields (Some prev) (Some next))"
    by (simp add: changed_fields_unfold t)
  have c4: "origins next = None \<longrightarrow> ''origins'' \<notin> set (changed_fields (Some prev) (Some next))"
    by (simp add: changed_fields_unfold origins_assign same_origins)
  have c5: "entry next = None \<longrightarrow>
      ''entry.username'' \<notin> set (changed_fields (Some prev) (Some next)) \<and>
      ''entry.password'' \<notin> set (changed_fields (Some prev) (Some next)) \<and>
      ''entry.notes'' \<notin> set (changed_fields (Some prev) (Some next))"
    by (simp add: changed_fields_unfold e)
  have c6: "''title'' \<in> set (changed_fields (Some prev) (Some next)) \<longrightarrow>
      title next \<noteq> None \<and> title next \<noteq> title prev"
    by (auto simp: changed_fields_unfold t split: if_splits)
  have c7: "''origins'' \<in> set (changed_fields (Some prev) (Some next)) \<longrightarrow>
      origins next \<noteq> None \<and> or_empty_list (origins next) \<noteq> or_empty_list (origins prev)"
    using same_origins by (auto simp: changed_fields_unfold origins_assign split: if_splits)
  have c8: "''entry.username'' \<in> set (changed_fields (Some prev) (Some next)) \<longrightarrow>
      entry next \<noteq> None \<and>
      username (or_empty_entry (entry next)) \<noteq> username (or_empty_entry (entry prev))"
    by (auto simp: changed_fields_unfold e split: if_splits)
  have c9: "''entry.password'' \<in> set (changed_fields (Some prev) (Some next)) \<longrightarrow>
      entry next \<noteq> None \<and>
      password (or_empty_entry (entry next)) \<noteq> password (or_empty_entry (entry prev))"
    by (auto simp: changed_fields_unfold e split: if_splits)
  have c10: "''entry.notes'' \<in> set (changed_fields (Some prev) (Some next)) \<longrightarrow>
      entry next \<noteq> None \<and>
      notes' (or_empty_entry (entry next)) \<noteq> notes' (or_empty_entry (entry prev))"
    by (auto simp: changed_fields_unfold e split: if_splits)
  from c1 c2 c3 c4 c5 c6 c7 c8 c9 c10 show ?thesis by blast
qed

section \<open>The state check, locking and the envelope\<close>

lemma checkState_unlocked: "checkState ds = Inr () \<longleftrightarrow> initialized ds \<and> \<not> locked ds"
  by (simp add: checkState_def)

lemma checkState_not_initialized:
  "\<not> initialized ds \<Longrightarrow>
   checkState ds = Inl (DataStoreError ''data is not initialized'' NOT_INITIALIZED)"
  by (simp add: checkState_def)

lemma checkState_locked:
  "initialized ds \<Longrightarrow> locked ds \<Longrightarrow>
   checkState ds = Inl (DataStoreError ''datastore is locked'' LOCKED)"
  by (simp add: checkState_def)

lemma checkState_guards:
  assumes "checkState ds = Inl err"
  shows "list ds = (Inl err, ds)"
    and "get i ds = (Inl err, ds)"
    and "add prep e it ds = (Inl err, ds)"
    and "update prep e it ds = (Inl err, ds)"
    and "remove e i ds = (Inl err, ds)"
  using assms by (simp_all add: list_def get_def add_def update_def remove_def)

lemma invoke_guarded:
  assumes "checkState ds = Inl err" and "defined_method c"
  shows "invoke prep e c ds = (Inl err, ds)"
  using assms by (cases c) (simp_all add: invoke_def returning_def checkState_guards)

text \<open>
  Each of the five operations the class defines fails with \<open>NOT_INITIALIZED\<close> on a
  vault without a wrapped key ring and with \<open>LOCKED\<close> on a locked one, and leaves
  the whole state, both tables included, as it was.
\<close>

lemma data_operations_guarded:
  assumes "defined_method c"
  shows "(\<not> initialized ds \<longrightarrow>
            invoke prep e c ds =
              (Inl (DataStoreError ''data is not initialized'' NOT_INITIALIZED), ds)) \<and>
         (initialized ds \<and> locked ds \<longrightarrow>
            invoke prep e c ds = (Inl (DataStoreError ''datastore is locked'' LOCKED), ds))"
  using assms
  by (simp add: invoke_guarded checkState_not_initialized checkState_locked)

lemma wrap_unwrap: "unwrap master (wrap master p2s p2c iv ring) = Inr ring"
  by (simp add: unwrap_def wrap_def)

lemma wrap_unwrap_other:
  "other \<noteq> master \<Longrightarrow> unwrap other (wrap master p2s p2c iv ring) = Inl InvalidMasterKey"
  by (cases other; cases master) (simp add: unwrap_def wrap_def derive_def)

lemma unlock_unlocked: "\<not> locked ds \<Longrightarrow> unlock pwd ds = (Inr (), ds)"
  by (simp add: unlock_def)

lemma lock_locks: "fst (lock ds) = Inr () \<and> locked (snd (lock ds))"
  by (simp add: lock_def locked_def ItemKeyStore_clear_def)

lemma lock_idem: "lock (snd (lock ds)) = lock ds"
  by (simp add: lock_def ItemKeyStore_clear_def)

lemma remove_absent:
  assumes "initialized ds" "\<not> locked ds" "ldb ds = Some db" "map_of (items db) i = None"
  shows "remove e i ds = (Inr None, ds)"
  using assms by (simp add: remove_def checkState_def)

lemma update_absent:
  assumes "initialized ds" "\<not> locked ds" "ldb ds = Some db" "map_of (items db) i = None"
    and "id' input = Some i" "i \<noteq> []"
  shows "update prep e (Some input) ds = (Inl (Error ''item does not exist''), ds)"
  using assms by (simp add: update_def checkState_def truthy_string_def)

lemma remove_success:
  assumes "remove e i ds = (Inr (Some it), ds')"
  obtains db a b stored m where
    "initialized ds" "\<not> locked ds" "ldb ds = Some db"
    "map_of (items db) i = Some (ItemRecord a b stored)"
    "ItemKeyStore_decrypt i stored (keystore ds) = Inr it"
    "masterKey (keystore ds) = Some m"
    "ds' = ds\<lparr>keystore :=
              (ItemKeyStore_delete i (keystore ds))
                \<lparr>encrypted := Some (wrap m (salt (keystore ds)) (iterations (keystore ds))
                                     (wrapIV e) (AList.delete i (keys (keystore ds))))\<rparr>,
            ldb := Some (put_keystore
                     ((ItemKeyStore_delete i (keystore ds))
                        \<lparr>encrypted := Some (wrap m (salt (keystore ds)) (iterations (keystore ds))
                                     (wrapIV e) (AList.delete i (keys (keystore ds))))\<rparr>)
                     (db\<lparr>items := AList.delete i (items db)\<rparr>)),
            metrics := metrics ds @ [Metric ''deleted'' (id' it) None]\<rparr>"
proof -
  from assms have cs: "checkState ds = Inr ()"
    by (cases "checkState ds") (simp_all add: remove_def)
  then have st: "initialized ds" "\<not> locked ds"
    by (simp_all add: checkState_unlocked)
  from assms cs obtain db where db: "ldb ds = Some db"
    by (cases "ldb ds") (simp_all add: remove_def no_ldb_def)
  from assms cs db obtain a b stored where row: "map_of (items db) i = Some (ItemRecord a b stored)"
    by (cases "map_of (items db) i") (auto simp: remove_def split: item_record.splits)
  from assms cs db row have dec: "ItemKeyStore_decrypt i stored (keystore ds) = Inr it"
    by (cases "ItemKeyStore_decrypt i stored (keystore ds)")
       (auto simp: remove_def Let_def split: sum.splits)
  from st obtain m where m: "masterKey (keystore ds) = Some m"
    by (auto simp: locked_def)
  from assms cs db row dec m have "ds' = ds\<lparr>keystore :=
              (ItemKeyStore_delete i (keystore ds))
                \<lparr>encrypted := Some (wrap m (salt (keystore ds)) (iterations (keystore ds))
                                     (wrapIV e) (AList.delete i (keys (keystore ds))))\<rparr>,
            ldb := Some (put_keystore
                     ((ItemKeyStore_delete i (keystore ds))
                        \<lparr>encrypted := Some (wrap m (salt (keystore ds)) (iterations (keystore ds))
                                     (wrapIV e) (AList.delete i (keys (keystore ds))))\<rparr>)
                     (db\<lparr>items := AList.delete i (items db)\<rparr>)),
            metrics := metrics ds @ [Metric ''deleted'' (id' it) None]\<rparr>"
    by (simp add: remove_def Let_def ItemKeyStore_save_def ItemKeyStore_delete_def)
  with st db row dec m show thesis by (rule that)
qed

lemma wrapped_truthy: "truthy_blob (Some (wrap m s c iv ring))"
  by (simp add: truthy_blob_def wrap_def)

text \<open>
  C6. After a successful \<open>remove(id)\<close> of a stored item: the row of the id is gone
  from \<open>items\<close> and every other row is as before, the key of the id is gone from the
  key ring, the row of \<open>keystores\<close> is the saved key store, whose wrapped key ring
  opens under the master key to the key ring without the id, one \<open>deleted\<close> event
  was recorded after the earlier ones, and \<open>get(id)\<close> returns null. Both tables
  change in the one step that ends the call.
\<close>

theorem remove_deletes_item_and_key:
  assumes "remove e i ds = (Inr (Some it), ds')"
  shows "\<exists>db db' master blob.
           ldb ds = Some db \<and> ldb ds' = Some db' \<and>
           items db' = AList.delete i (items db) \<and>
           map_of (items db') i = None \<and>
           keys (keystore ds') = AList.delete i (keys (keystore ds)) \<and>
           map_of (keys (keystore ds')) i = None \<and>
           map_of (keystores db') (group' (keystore ds')) =
             Some (ItemKeyStore_toJSON (keystore ds')) \<and>
           masterKey (keystore ds') = Some master \<and>
           encrypted (keystore ds') = Some blob \<and>
           unwrap master blob = Inr (keys (keystore ds')) \<and>
           metrics ds' = metrics ds @ [Metric ''deleted'' (id' it) None] \<and>
           get i ds' = (Inr None, ds')"
proof -
  from assms obtain db a b stored m where
    st: "initialized ds" "\<not> locked ds" and db: "ldb ds = Some db"
    and m: "masterKey (keystore ds) = Some m"
    and ds': "ds' = ds\<lparr>keystore :=
              (ItemKeyStore_delete i (keystore ds))
                \<lparr>encrypted := Some (wrap m (salt (keystore ds)) (iterations (keystore ds))
                                     (wrapIV e) (AList.delete i (keys (keystore ds))))\<rparr>,
            ldb := Some (put_keystore
                     ((ItemKeyStore_delete i (keystore ds))
                        \<lparr>encrypted := Some (wrap m (salt (keystore ds)) (iterations (keystore ds))
                                     (wrapIV e) (AList.delete i (keys (keystore ds))))\<rparr>)
                     (db\<lparr>items := AList.delete i (items db)\<rparr>)),
            metrics := metrics ds @ [Metric ''deleted'' (id' it) None]\<rparr>"
    by (rule remove_success)
  define ring where "ring = AList.delete i (keys (keystore ds))"
  define blob where "blob = wrap m (salt (keystore ds)) (iterations (keystore ds)) (wrapIV e) ring"
  define ks where "ks = (ItemKeyStore_delete i (keystore ds))\<lparr>encrypted := Some blob\<rparr>"
  define db' where "db' = put_keystore ks (db\<lparr>items := AList.delete i (items db)\<rparr>)"
  have eq: "ds' = ds\<lparr>keystore := ks, ldb := Some db',
                     metrics := metrics ds @ [Metric ''deleted'' (id' it) None]\<rparr>"
    using ds' by (simp add: ks_def db'_def blob_def ring_def)
  have k1: "keystore ds' = ks" and l1: "ldb ds' = Some db'"
    and m1: "metrics ds' = metrics ds @ [Metric ''deleted'' (id' it) None]"
    by (simp_all add: eq)
  have ks_keys: "keys ks = ring" and ks_master: "masterKey ks = Some m"
    and ks_enc: "encrypted ks = Some blob"
    by (simp_all add: ks_def ItemKeyStore_delete_def ring_def m)
  have it1: "items db' = AList.delete i (items db)"
    by (simp add: db'_def put_keystore_def)
  have gone: "map_of (items db') i = None"
    by (simp add: it1 delete_conv')
  have key_gone: "map_of (keys ks) i = None"
    by (simp add: ks_keys ring_def delete_conv')
  have saved: "map_of (keystores db') (group' ks) = Some (ItemKeyStore_toJSON ks)"
    by (simp add: db'_def put_keystore_def update_conv')
  have opens: "unwrap m blob = Inr (keys ks)"
    by (simp add: blob_def ks_keys wrap_unwrap)
  have "initialized ds'" and "\<not> locked ds'"
    by (simp_all add: initialized_def locked_def k1 ks_enc ks_master blob_def wrapped_truthy)
  then have "checkState ds' = Inr ()"
    by (simp add: checkState_unlocked)
  then have got: "get i ds' = (Inr None, ds')"
    by (simp add: get_def l1 gone)
  show ?thesis
    using db l1 it1 gone ks_keys [unfolded ring_def] key_gone saved ks_master ks_enc opens m1 got
    unfolding k1 [symmetric] by blast
qed

text \<open>A failed \<open>remove\<close> leaves both tables as they were.\<close>

lemma remove_atomic:
  "fst (remove e i ds) = Inl err \<Longrightarrow> ldb (snd (remove e i ds)) = ldb ds"
  by (auto simp: remove_def Let_def split: sum.splits option.splits item_record.splits)

text \<open>
  C9. \<open>unlock\<close> on a vault that is not locked returns the vault with nothing
  changed, whatever the password. \<open>lock\<close> on a locked vault succeeds and leaves it
  locked; locking twice is locking once.
\<close>

theorem unlock_noop_lock_idempotent:
  "(\<not> locked ds \<longrightarrow> unlock pwd ds = (Inr (), ds)) \<and>
   (locked ds \<longrightarrow> fst (lock ds) = Inr () \<and> locked (snd (lock ds))) \<and>
   lock (snd (lock ds)) = lock ds"
  by (simp add: unlock_unlocked lock_locks lock_idem)

text \<open>
  C7. Unwrapping a wrapped key ring under the master key it was wrapped under gives
  the key ring back, whatever its contents, salt, iteration count and nonce;
  unwrapping it under any other master key fails with \<open>InvalidMasterKey\<close>.
\<close>

theorem wrap_unwrap_roundtrip:
  "unwrap master (wrap master p2s p2c iv ring) = Inr ring \<and>
   (other \<noteq> master \<longrightarrow>
      unwrap other (wrap master p2s p2c iv ring) = Inl InvalidMasterKey)"
  by (simp add: wrap_unwrap wrap_unwrap_other)

lemma save_load_roundtrip:
  assumes "masterKey ks = Some master"
  shows "\<exists>saved. ItemKeyStore_save iv ks = Inr saved \<and>
           (\<exists>loaded. ItemKeyStore_load (Some master) (ItemKeyStore_clear False saved) = Inr loaded \<and>
                     keys loaded = keys ks \<and> masterKey loaded = Some master) \<and>
           (other \<noteq> master \<longrightarrow>
              ItemKeyStore_load (Some other) (ItemKeyStore_clear False saved) = Inl InvalidMasterKey)"
  using assms
  by (simp add: ItemKeyStore_save_def ItemKeyStore_load_def ItemKeyStore_clear_def
      overlay_def wrap_unwrap wrap_unwrap_other)

lemma passwordToKey_inject: "passwordToKey (Some p) = passwordToKey (Some q) \<longleftrightarrow> p = q"
  by (simp add: passwordToKey_def)

text \<open>
  The master key of the data store is the password behind the fixed prefix, so two
  passwords give two master keys: a key ring wrapped under one password does not
  open under another.
\<close>

lemma wrong_password_rejected:
  assumes "q \<noteq> p"
  shows "unwrap (passwordToKey (Some q)) (wrap (passwordToKey (Some p)) p2s p2c iv ring) =
           Inl InvalidMasterKey"
proof -
  from assms have "passwordToKey (Some q) \<noteq> passwordToKey (Some p)"
    by (simp add: passwordToKey_inject)
  then show ?thesis by (rule wrap_unwrap_other)
qed

text \<open>
  C5, as amended. On an unlocked vault and an id that has no row in \<open>items\<close>,
  \<open>remove(id)\<close> does not fail: it returns null and changes nothing, neither table,
  nor the key store, nor the recorded events. \<open>update\<close> with an item of that id
  fails and changes nothing.
\<close>

theorem missing_item_remove_update:
  assumes "initialized ds" and "\<not> locked ds" and "ldb ds = Some db"
    and "map_of (items db) i = None"
  shows "remove e i ds = (Inr None, ds) \<and>
         (id' input = Some i \<and> i \<noteq> [] \<longrightarrow>
            (\<exists>err. update prep e (Some input) ds = (Inl err, ds)))"
  using remove_absent [OF assms] update_absent [OF assms] by simp

section \<open>Runs on concrete vaults\<close>

lemma vault_empty_value:
  "vault_empty =
     \<lparr>bucket = None,
      keystore = \<lparr>group' = [], salt = ''s1'', iterations = 8192,
                  encrypted = Some (wrap master1 ''s1'' 8192 2 []),
                  masterKey = Some master1, keys = []\<rparr>,
      ldb = Some \<lparr>items = [],
                  keystores = [([], \<lparr>cfg_group = Some [], cfg_salt = Some ''s1'',
                                     cfg_iterations = Some 8192,
                                     cfg_encrypted = Some (wrap master1 ''s1'' 8192 2 []),
                                     cfg_masterKey = None\<rparr>)]\<rparr>,
      metrics = []\<rparr>"
  by (simp add: vault_empty_def initialize_def prepare_def DataStore_new_def env1_def opts1_def
      ItemKeyStore_new_def ItemKeyStore_toJSON_def ItemKeyStore_save_def empty_cfg_def
      empty_database_def truthy_blob_def put_keystore_def master1_def Let_def)

lemma vault_one_value:
  "vault_one =
     \<lparr>bucket = None, keystore = keystore_one, ldb = Some database_one,
      metrics = [Metric ''added'' (Some ''id1'') None]\<rparr>"
  unfolding vault_one_def vault_empty_value
  by (simp add: add_def checkState_def initialized_def locked_def truthy_blob_def wrap_def
      stub_prepare_def something_def empty_item_def env1_def ItemKeyStore_encrypt_def
      ItemKeyStore_add_def ItemKeyStore_save_def put_keystore_def ItemKeyStore_toJSON_def
      active_of_def truthy_flag_def keystore_one_def database_one_def stored_something_def)

lemma vault_locked_value:
  "vault_locked =
     \<lparr>bucket = None, keystore = keystore_one\<lparr>masterKey := None, keys := []\<rparr>,
      ldb = Some database_one, metrics = [Metric ''added'' (Some ''id1'') None]\<rparr>"
  by (simp add: vault_locked_def vault_one_value lock_def ItemKeyStore_clear_def keystore_one_def)

lemma vault_fresh_value:
  "vault_fresh =
     \<lparr>bucket = None,
      keystore = \<lparr>group' = [], salt = ''s0'', iterations = 8192, encrypted = None,
                  masterKey = None, keys = []\<rparr>,
      ldb = Some empty_database, metrics = []\<rparr>"
  by (simp add: vault_fresh_def prepare_def DataStore_new_def env1_def ItemKeyStore_new_def
      ItemKeyStore_toJSON_def empty_cfg_def empty_database_def Let_def)

lemma vault_one_unlocked:
  "initialized vault_one" "\<not> locked vault_one" "ldb vault_one = Some database_one"
  "checkState vault_one = Inr ()"
  by (simp_all add: vault_one_value checkState_def initialized_def locked_def keystore_one_def
      truthy_blob_def wrap_def)

lemma vault_locked_locked:
  "initialized vault_locked" "locked vault_locked" "ldb vault_locked = Some database_one"
  by (simp_all add: vault_locked_value initialized_def locked_def keystore_one_def
      truthy_blob_def wrap_def)

lemma initialize_again:
  assumes "ldb ds = Some db" and "initialized ds"
  shows "initialize e opts ds = (Inl (DataStoreError ''already initialized'' INITIALIZED), ds)"
  using assms by (simp add: initialize_def prepare_def initialized_def Let_def)

text \<open>
  C1. \<open>initialize\<close> never reads \<open>rebase\<close>: on the vault holding one item, called
  with a new password, a new salt and \<open>rebase: true\<close>, it fails with
  \<open>INITIALIZED\<close> and changes nothing, when the vault is unlocked and when it is
  locked alike.
\<close>

theorem initialize_rebase_already_initialized:
  "\<not> locked vault_one \<and>
   initialize e opts_rebase vault_one =
     (Inl (DataStoreError ''already initialized'' INITIALIZED), vault_one) \<and>
   locked vault_locked \<and>
   initialize e opts_rebase vault_locked =
     (Inl (DataStoreError ''already initialized'' INITIALIZED), vault_locked)"
  by (simp add: vault_one_unlocked vault_locked_locked
      initialize_again [OF vault_one_unlocked(3) vault_one_unlocked(1)]
      initialize_again [OF vault_locked_locked(3) vault_locked_locked(1)])

lemma vault_fresh_uninitialized:
  "checkState vault_fresh = Inl (DataStoreError ''data is not initialized'' NOT_INITIALIZED)"
  by (simp add: checkState_def initialized_def vault_fresh_value truthy_blob_def)

text \<open>
  C2. The five operations the class defines fail with the error of \<open>checkState\<close>
  and change nothing (\<open>invoke_guarded\<close>). \<open>touch\<close> is not among them: called on
  the locked vault and on the vault never initialized, it fails as a call of
  \<open>undefined\<close> does, not with \<open>LOCKED\<close> or \<open>NOT_INITIALIZED\<close>.
\<close>

theorem touch_skips_state_check:
  "checkState vault_locked = Inl (DataStoreError ''datastore is locked'' LOCKED) \<and>
   invoke prep e (Touch (Some stored_something)) vault_locked =
     (Inl (TypeError ''touch is not a function''), vault_locked) \<and>
   checkState vault_fresh = Inl (DataStoreError ''data is not initialized'' NOT_INITIALIZED) \<and>
   invoke prep e (Touch (Some stored_something)) vault_fresh =
     (Inl (TypeError ''touch is not a function''), vault_fresh)"
  by (simp add: checkState_locked [OF vault_locked_locked(1) vault_locked_locked(2)]
      vault_fresh_uninitialized invoke_def)

lemma get_stored: "get ''id1'' vault_one = (Inr (Some stored_something), vault_one)"
  by (simp add: get_def vault_one_unlocked database_one_def ItemKeyStore_decrypt_def)
     (simp add: vault_one_value keystore_one_def)

text \<open>
  C3. On the unlocked vault, with the item that \<open>get\<close> returns for \<open>id1\<close>,
  \<open>touch\<close> fails as a call of \<open>undefined\<close> does: no \<open>last_used\<close> is set, nothing
  is stored and no event is recorded.
\<close>

theorem touch_not_defined:
  "get ''id1'' vault_one = (Inr (Some stored_something), vault_one) \<and>
   invoke prep e (Touch (Some stored_something)) vault_one =
     (Inl (TypeError ''touch is not a function''), vault_one)"
  by (simp add: get_stored invoke_def)

text \<open>
  C8. On the unlocked vault, \<open>add\<close> without an item fails with the built-in
  \<open>TypeError\<close> "expected item", and \<open>update\<close> without an item or with an item
  that has no id with the \<open>TypeError\<close> "invalid item": none is a
  \<open>DataStoreError\<close>, none has the reason \<open>INVALID_ITEM\<close>.
\<close>

theorem absent_item_type_error:
  "add prep e None vault_one = (Inl (TypeError ''expected item''), vault_one) \<and>
   update prep e None vault_one = (Inl (TypeError ''invalid item''), vault_one) \<and>
   update prep e (Some something) vault_one = (Inl (TypeError ''invalid item''), vault_one)"
  by (simp add: add_def update_def vault_one_unlocked something_def empty_item_def
      truthy_string_def)

text \<open>
  C5 as stated fails: on the unlocked vault holding the item \<open>id1\<close>, where
  \<open>get\<close> finds nothing under \<open>id9\<close>, \<open>remove\<close> of \<open>id9\<close> returns null.
\<close>

theorem remove_absent_returns_null:
  "checkState vault_one = Inr () \<and>
   get ''id9'' vault_one = (Inr None, vault_one) \<and>
   remove env1 ''id9'' vault_one = (Inr None, vault_one)"
  by (simp add: get_def remove_def vault_one_unlocked database_one_def)

text \<open>
  The run of the amended C5 on that vault and that id.
\<close>

theorem missing_item_remove_update_witness:
  "initialized vault_one \<and> \<not> locked vault_one \<and> ldb vault_one = Some database_one \<and>
   map_of (items database_one) ''id9'' = None \<and>
   remove env1 ''id9'' vault_one = (Inr None, vault_one) \<and>
   (\<exists>err. update (stub_prepare ''id2'' ''t2'') env1 (Some (something\<lparr>id' := Some ''id9''\<rparr>))
            vault_one = (Inl err, vault_one))"
proof -
  have absent: "map_of (items database_one) ''id9'' = None"
    by (simp add: database_one_def)
  have "id' (something\<lparr>id' := Some ''id9''\<rparr>) = Some ''id9'' \<and> ''id9'' \<noteq> []"
    by simp
  with missing_item_remove_update [OF vault_one_unlocked(1-3) absent,
      of env1 "something\<lparr>id' := Some ''id9''\<rparr>" "stub_prepare ''id2'' ''t2''"]
  show ?thesis using vault_one_unlocked absent by simp
qed

lemma remove_stored:
  "remove env1 ''id1'' vault_one =
     (Inr (Some stored_something),
      vault_one\<lparr>keystore := keystore_one\<lparr>keys := [],
                    encrypted := Some (wrap master1 ''s1'' 8192 2 [])\<rparr>,
                 ldb := Some \<lparr>items = [],
                    keystores = [([], ItemKeyStore_toJSON
                       (keystore_one\<lparr>keys := [],
                          encrypted := Some (wrap master1 ''s1'' 8192 2 [])\<rparr>))]\<rparr>,
                 metrics := [Metric ''added'' (Some ''id1'') None,
                             Metric ''deleted'' (Some ''id1'') None]\<rparr>)"
  by (simp add: remove_def vault_one_unlocked database_one_def ItemKeyStore_decrypt_def Let_def)
     (simp add: vault_one_value keystore_one_def ItemKeyStore_save_def ItemKeyStore_delete_def
        put_keystore_def ItemKeyStore_toJSON_def env1_def stored_something_def)

text \<open>
  The run of C6: removing the one item of the vault returns it, empties both the
  table and the key ring, records \<open>deleted\<close> for its id, and \<open>get\<close> gives null.
\<close>

theorem remove_deletes_item_and_key_witness:
  "fst (remove env1 ''id1'' vault_one) = Inr (Some stored_something) \<and>
   (\<exists>db'. ldb (snd (remove env1 ''id1'' vault_one)) = Some db' \<and> map_of (items db') ''id1'' = None) \<and>
   map_of (keys (keystore (snd (remove env1 ''id1'' vault_one)))) ''id1'' = None \<and>
   metrics (snd (remove env1 ''id1'' vault_one)) =
     [Metric ''added'' (Some ''id1'') None, Metric ''deleted'' (Some ''id1'') None] \<and>
   get ''id1'' (snd (remove env1 ''id1'' vault_one)) =
     (Inr None, snd (remove env1 ''id1'' vault_one))"
proof -
  define after where "after = snd (remove env1 ''id1'' vault_one)"
  have ok: "fst (remove env1 ''id1'' vault_one) = Inr (Some stored_something)"
    by (simp add: remove_stored)
  then have run: "remove env1 ''id1'' vault_one = (Inr (Some stored_something), after)"
    by (simp add: after_def prod_eq_iff)
  have logged: "metrics vault_one = [Metric ''added'' (Some ''id1'') None]"
    and named: "id' stored_something = Some ''id1''"
    by (simp_all add: vault_one_value stored_something_def)
  from remove_deletes_item_and_key [OF run] obtain db' where
    "ldb after = Some db'" "map_of (items db') ''id1'' = None"
    "map_of (keys (keystore after)) ''id1'' = None"
    "metrics after = metrics vault_one @ [Metric ''deleted'' (id' stored_something) None]"
    "get ''id1'' after = (Inr None, after)"
    by blast
  with ok logged named show ?thesis
    unfolding after_def by auto
qed

text \<open>
  The run of C7 on a key ring of one key, with two different master keys.
\<close>

theorem wrap_unwrap_roundtrip_witness:
  "unwrap (Oct ''M1'') (wrap (Oct ''M1'') ''s1'' 8192 2 [(''id1'', Oct ''k1'')]) =
     Inr [(''id1'', Oct ''k1'')] \<and>
   Oct ''M2'' \<noteq> Oct ''M1'' \<and>
   unwrap (Oct ''M2'') (wrap (Oct ''M1'') ''s1'' 8192 2 [(''id1'', Oct ''k1'')]) =
     Inl InvalidMasterKey"
  using wrap_unwrap_roundtrip [of "Oct ''M1''" "''s1''" 8192 2 "[(''id1'', Oct ''k1'')]" "Oct ''M2''"]
  by simp

text \<open>
  The run of C9 on the unlocked vault holding one item and on the same vault locked.
\<close>

theorem unlock_noop_lock_idempotent_witness:
  "\<not> locked vault_one \<and> unlock (Some ''M1'') vault_one = (Inr (), vault_one) \<and>
   locked vault_locked \<and> fst (lock vault_locked) = Inr () \<and> locked (snd (lock vault_locked)) \<and>
   lock (snd (lock vault_locked)) = lock vault_locked"
  using unlock_noop_lock_idempotent [of vault_one "Some ''M1''"]
    unlock_noop_lock_idempotent [of vault_locked None]
    vault_one_unlocked(2) vault_locked_locked(2)
  by simp




text \<open>
  The runs of C10: an update without title and origins reports only the password it
  changes; the empty object reports no entry field; an update that carries every
  compared field with a new value reports all five.
\<close>

theorem changes_after_overlay_witness:
  "title partial_next = None \<and> origins partial_next = None \<and>
   changed_fields (Some s4_prev) (Some partial_next) = [''entry.password''] \<and>
   ''title'' \<notin> set (changed_fields (Some s4_prev) (Some partial_next)) \<and>
   ''origins'' \<notin> set (changed_fields (Some s4_prev) (Some partial_next)) \<and>
   entry empty_item = None \<and>
   ''entry.username'' \<notin> set (changed_fields (Some s4_prev) (Some empty_item)) \<and>
   ''title'' \<in> set (changed_fields (Some s4_prev) (Some full_next)) \<and>
   title full_next \<noteq> None \<and> title full_next \<noteq> title s4_prev \<and>
   ''origins'' \<in> set (changed_fields (Some s4_prev) (Some full_next)) \<and>
   ''entry.notes'' \<in> set (changed_fields (Some s4_prev) (Some full_next)) \<and>
   determineItemChanges (Some s4_prev) (Some full_next) =
     ''title,origins,entry.username,entry.password,entry.notes''"
proof -
  have a: "title partial_next = None" "origins partial_next = None" "entry empty_item = None"
    by (simp_all add: partial_next_def empty_item_def)
  have p: "changed_fields (Some s4_prev) (Some partial_next) = [''entry.password'']"
    by (simp add: changed_fields_unfold assign_sel overlay_simps origins_differ_def
        or_empty_list_def or_empty_entry_def partial_next_def s4_prev_def s3_next_def s3_prev_def
        stored_something_def something_def empty_item_def)
  have f: "changed_fields (Some s4_prev) (Some full_next) =
             [''title'', ''origins'', ''entry.username'', ''entry.password'', ''entry.notes'']"
    by (simp add: changed_fields_unfold assign_sel overlay_simps origins_differ_def
        or_empty_list_def or_empty_entry_def full_next_def s4_prev_def s3_next_def s3_prev_def
        stored_something_def something_def empty_item_def)
  from changes_after_overlay [of s4_prev partial_next] a(1,2)
  have n1: "''title'' \<notin> set (changed_fields (Some s4_prev) (Some partial_next))"
    and n2: "''origins'' \<notin> set (changed_fields (Some s4_prev) (Some partial_next))"
    by blast+
  from changes_after_overlay [of s4_prev empty_item] a(3)
  have n3: "''entry.username'' \<notin> set (changed_fields (Some s4_prev) (Some empty_item))"
    by blast
  have m: "''title'' \<in> set (changed_fields (Some s4_prev) (Some full_next))"
    "''origins'' \<in> set (changed_fields (Some s4_prev) (Some full_next))"
    "''entry.notes'' \<in> set (changed_fields (Some s4_prev) (Some full_next))"
    by (simp_all add: f)
  from changes_after_overlay [of s4_prev full_next] m(1)
  have t: "title full_next \<noteq> None \<and> title full_next \<noteq> title s4_prev"
    by blast
  have j: "determineItemChanges (Some s4_prev) (Some full_next) =
             ''title,origins,entry.username,entry.password,entry.notes''"
    by (simp add: determineItemChanges_def f)
  from a p n1 n2 n3 m t j show ?thesis by blast
qed

text \<open>
  A run of \<open>update\<close>: changing the password of the stored item records
  \<open>updated\<close> with the field list \<open>entry.password\<close>.
\<close>

lemma update_reports_password:
  "fst (update (stub_prepare ''id2'' ''t2'') env1 (Some changed_password) vault_one) =
     Inr (changed_password\<lparr>modified := Some ''t2''\<rparr>) \<and>
   metrics (snd (update (stub_prepare ''id2'' ''t2'') env1 (Some changed_password) vault_one)) =
     [Metric ''added'' (Some ''id1'') None,
      Metric ''updated'' (Some ''id1'') (Some ''entry.password'')]"
proof -
  have dec: "ItemKeyStore_decrypt ''id1'' (ItemJWE (Oct ''k1'') ''id1'' 7 (Json stored_something))
               (keystore vault_one) = Inr stored_something"
    by (simp add: ItemKeyStore_decrypt_def vault_one_value keystore_one_def)
  have prep: "stub_prepare ''id2'' ''t2'' changed_password (Some stored_something) =
                Inr (changed_password\<lparr>modified := Some ''t2''\<rparr>)"
    by (simp add: stub_prepare_def assign_def overlay_def changed_password_def
        stored_something_def something_def empty_item_def)
  have ch: "determineItemChanges (Some stored_something)
              (Some (changed_password\<lparr>modified := Some ''t2''\<rparr>)) = ''entry.password''"
    by (simp add: determineItemChanges_def changed_fields_unfold assign_sel overlay_simps
        origins_differ_def or_empty_list_def or_empty_entry_def changed_password_def
        stored_something_def something_def empty_item_def)
  have idc: "id' changed_password = Some ''id1''"
    by (simp add: changed_password_def stored_something_def)
  show ?thesis
    by (simp add: update_def vault_one_unlocked database_one_def truthy_string_def idc dec prep ch
        ItemKeyStore_encrypt_def ItemKeyStore_add_def Let_def)
       (simp add: vault_one_value keystore_one_def changed_password_def stored_something_def)
qed

text \<open>
  Runs of \<open>unlock\<close> on the locked vault: the password it was initialized with
  brings back the unlocked vault, key ring included; another password fails with
  \<open>InvalidMasterKey\<close> and changes nothing.
\<close>

lemma unlock_runs:
  "unlock (Some ''M1'') vault_locked = (Inr (), vault_one) \<and>
   unlock (Some ''M2'') vault_locked = (Inl InvalidMasterKey, vault_locked)"
proof -
  have step: "unlock pwd vault_locked =
      (case ItemKeyStore_load (Some (passwordToKey pwd)) (keystore vault_locked) of
         Inl err \<Rightarrow> (Inl err, vault_locked)
       | Inr ks \<Rightarrow> (Inr (), vault_locked\<lparr>keystore := ks\<rparr>))" for pwd
    by (simp add: unlock_def vault_locked_locked)
  have ks: "keystore vault_locked = keystore_one\<lparr>masterKey := None, keys := []\<rparr>"
    by (simp add: vault_locked_value)
  have right: "ItemKeyStore_load (Some (passwordToKey (Some ''M1''))) (keystore vault_locked) =
                 Inr keystore_one"
    by (simp add: ks ItemKeyStore_load_def overlay_def keystore_one_def master1_def wrap_unwrap)
  have wrong: "ItemKeyStore_load (Some (passwordToKey (Some ''M2''))) (keystore vault_locked) =
                 Inl InvalidMasterKey"
    by (simp add: ks ItemKeyStore_load_def overlay_def keystore_one_def master1_def
        wrong_password_rejected)
  show ?thesis
    by (simp add: step right wrong) (simp add: vault_locked_value vault_one_value)
qed


text \<open>A run of \<open>list\<close> on the vault that holds one item.\<close>

lemma list_one: "fst (list vault_one) = Inr [(''id1'', stored_something)]"
  by (simp add: list_def vault_one_unlocked database_one_def ItemKeyStore_decrypt_def)
     (simp add: vault_one_value keystore_one_def)

end
